theory Spec2Isabelle
  imports Main "HOL-Library.Word"
begin

unbundle bit_operations_syntax

section \<open>Data model of uxn.c\<close>

type_synonym u8 = "8 word"
type_synonym u16 = "16 word"

text \<open>
  Modelled from the spec: the enumerations \<open>InputKey\<close> and \<open>InputType\<close> are declared in a
  header of the host that is not part of the source file. The spec names six key
  identities (confirm, cancel, up, down, left, right) and press, release and long-press
  events; \<open>uxn.c\<close> names the six keys and the three event types below. \<open>InputKeyOther\<close>
  and \<open>InputTypeOther\<close> stand for every further value of the C enumerations: the values
  that take the \<open>default\<close> branch of \<open>button_bit\<close>, and the event types that match no
  comparison in \<open>input_callback\<close>.
\<close>

datatype InputKey =
  InputKeyOk | InputKeyBack | InputKeyUp | InputKeyDown | InputKeyLeft | InputKeyRight
  | InputKeyOther

datatype InputType = InputTypePress | InputTypeRelease | InputTypeLong | InputTypeOther

record InputEvent =
  type :: InputType
  key :: InputKey

text \<open>
  \<open>Uxn\<close>: the two arrays this file reaches through the struct, \<open>ram\<close> (0x10000 bytes,
  addressed by a 16-bit offset) and \<open>dev\<close> (0x100 bytes, addressed by a \<open>Uint8\<close>).
  An array of fixed size indexed by a machine integer of exactly that range is a total
  function on the index type.
\<close>

record Uxn =
  ram :: "u16 \<Rightarrow> u8"
  dev :: "u8 \<Rightarrow> u8"

text \<open>
  The global \<open>uxn_screen\<close> of the screen device: this file reads its two colour planes,
  one byte per pixel, at the index \<open>y * 128 + x\<close>.
\<close>

record UxnScreen =
  fg :: "nat \<Rightarrow> u8"
  bg :: "nat \<Rightarrow> u8"

text \<open>
  \<open>UxnState\<close> as declared in the file. The mutex is not a field of the model: every
  handler and every iteration of the render loop takes it first and releases it last, so
  each of them is one atomic step on the state, and the steps interleave.
\<close>

record UxnState =
  uxn :: Uxn
  running :: bool
  redraw :: bool

text \<open>
  The calls that leave the file, in the order they are made: the interpreter
  (\<open>uxn_eval\<close> with its program counter) and the canvas of the host.
\<close>

datatype call = UxnEval u16 | CanvasClear | CanvasDrawDot nat nat | CanvasCommit

record session =
  state :: UxnState
  uxn_screen :: UxnScreen
  calls :: "call list"

text \<open>
  What the interpreter and the screen device can reach: the \<open>Uxn\<close> they are handed and
  the global \<open>uxn_screen\<close>. They are not part of the source file and are parameters of
  the model:
  \<^item> the interpreter \<open>uxn_eval(u, pc)\<close>;
  \<^item> \<open>screen_dei(u, addr)\<close>, which returns a byte;
  \<^item> \<open>screen_deo(ram, d, port)\<close>, where the pointer \<open>d = &dev[0x20]\<close> is the register
    array together with the offset it points at.
\<close>

type_synonym vm = "Uxn \<times> UxnScreen"
type_synonym eval_fn = "vm \<Rightarrow> u16 \<Rightarrow> vm"
type_synonym dei_fn = "vm \<Rightarrow> u8 \<Rightarrow> u8 \<times> vm"
type_synonym deo_fn =
  "(u16 \<Rightarrow> u8) \<Rightarrow> (u8 \<Rightarrow> u8) \<times> u8 \<Rightarrow> u8 \<Rightarrow> UxnScreen
     \<Rightarrow> (u16 \<Rightarrow> u8) \<times> (u8 \<Rightarrow> u8) \<times> UxnScreen"

section \<open>The functions of uxn.c\<close>

fun button_bit :: "InputKey \<Rightarrow> u8" where
  "button_bit InputKeyOk = 0x01"
| "button_bit InputKeyBack = 0x02"
| "button_bit InputKeyUp = 0x10"
| "button_bit InputKeyDown = 0x20"
| "button_bit InputKeyLeft = 0x40"
| "button_bit InputKeyRight = 0x80"
| "button_bit InputKeyOther = 0"

text \<open>
  The call \<open>uxn_eval(&state->uxn, pc)\<close>: the interpreter runs on the \<open>Uxn\<close> of the state
  and on the screen, and the call is recorded.
\<close>

definition uxn_eval :: "eval_fn \<Rightarrow> session \<Rightarrow> u16 \<Rightarrow> session" where
  "uxn_eval ev w pc =
     (let (u', s') = ev (uxn (state w), uxn_screen w) pc
      in w\<lparr>state := (state w)\<lparr>uxn := u'\<rparr>, uxn_screen := s',
           calls := calls w @ [UxnEval pc]\<rparr>)"

text \<open>\<open>dev[0x80] << 8 | dev[0x81]\<close> and \<open>dev[0x20] << 8 | dev[0x21]\<close>, stored in a \<open>uint16_t\<close>.\<close>

definition controller_vector :: "Uxn \<Rightarrow> u16" where
  "controller_vector u = push_bit 8 (ucast (dev u 0x80)) OR ucast (dev u 0x81)"

definition screen_vector :: "Uxn \<Rightarrow> u16" where
  "screen_vector u = push_bit 8 (ucast (dev u 0x20)) OR ucast (dev u 0x21)"

text \<open>The assignments \<open>dev[0x82] |= b\<close> and \<open>dev[0x82] &= ~b\<close> on the state.\<close>

definition set_dev :: "session \<Rightarrow> u8 \<Rightarrow> u8 \<Rightarrow> session" where
  "set_dev w a v =
     w\<lparr>state := (state w)\<lparr>uxn := (uxn (state w))\<lparr>dev := (dev (uxn (state w)))(a := v)\<rparr>\<rparr>\<rparr>"

definition input_callback :: "eval_fn \<Rightarrow> InputEvent \<Rightarrow> session \<Rightarrow> session" where
  "input_callback ev event w =
     (let controller_vector = controller_vector (uxn (state w));
          w1 = (if type event = InputTypePress then
                  uxn_eval ev
                    (set_dev w 0x82 (dev (uxn (state w)) 0x82 OR button_bit (key event)))
                    controller_vector
                else if type event = InputTypeRelease then
                  uxn_eval ev
                    (set_dev w 0x82 (dev (uxn (state w)) 0x82 AND NOT (button_bit (key event))))
                    controller_vector
                else w)
      in if key event = InputKeyBack \<and> type event = InputTypeLong
         then w1\<lparr>state := (state w1)\<lparr>running := False\<rparr>\<rparr> else w1)"

definition timer_callback :: "eval_fn \<Rightarrow> session \<Rightarrow> session" where
  "timer_callback ev w =
     (let screen_vector = screen_vector (uxn (state w));
          w1 = uxn_eval ev w screen_vector
      in w1\<lparr>state := (state w1)\<lparr>redraw := True\<rparr>\<rparr>)"

definition emu_dei :: "dei_fn \<Rightarrow> vm \<Rightarrow> u8 \<Rightarrow> u8 \<times> vm" where
  "emu_dei sdei m addr =
     (let port = addr AND 0x0f; d = drop_bit 4 addr
      in if d = 0x2 then sdei m addr else (dev (fst m) addr, m))"

definition emu_deo :: "deo_fn \<Rightarrow> vm \<Rightarrow> u8 \<Rightarrow> u8 \<Rightarrow> vm" where
  "emu_deo sdeo m addr val =
     (let u1 = (fst m)\<lparr>dev := (dev (fst m))(addr := val)\<rparr>;
          port = addr AND 0x0f; d = drop_bit 4 addr
      in if d = 0x2 then
           (let (r', d', s') = sdeo (ram u1) (dev u1, 0x20) port (snd m)
            in (u1\<lparr>ram := r', dev := d'\<rparr>, s'))
         else (u1, snd m))"

text \<open>The canvas of the host: each call is recorded.\<close>

definition canvas_clear :: "session \<Rightarrow> session" where
  "canvas_clear w = w\<lparr>calls := calls w @ [CanvasClear]\<rparr>"

definition canvas_draw_dot :: "session \<Rightarrow> nat \<Rightarrow> nat \<Rightarrow> session" where
  "canvas_draw_dot w x y = w\<lparr>calls := calls w @ [CanvasDrawDot x y]\<rparr>"

definition canvas_commit :: "session \<Rightarrow> session" where
  "canvas_commit w = w\<lparr>calls := calls w @ [CanvasCommit]\<rparr>"

text \<open>
  The render loop of \<open>uxn_app\<close>. \<open>pixel_on\<close> is the decision
  \<open>bool on = fg & 1; if (fg == 0) on = bg & 1;\<close>, \<open>draw_pixel\<close> the body of the inner
  loop, \<open>render_loop_body\<close> one iteration of \<open>while (state.running)\<close> between taking
  and releasing the mutex.
\<close>

definition pixel_on :: "u8 \<Rightarrow> u8 \<Rightarrow> bool" where
  "pixel_on f b =
     (let on = (f AND 1 \<noteq> 0);
          on = (if f = 0 then b AND 1 \<noteq> 0 else on)
      in on)"

definition draw_pixel :: "nat \<Rightarrow> nat \<Rightarrow> session \<Rightarrow> session" where
  "draw_pixel y x w =
     (let f = fg (uxn_screen w) (y * 128 + x);
          b = bg (uxn_screen w) (y * 128 + x)
      in if pixel_on f b then canvas_draw_dot w x y else w)"

definition render_loop_body :: "session \<Rightarrow> session" where
  "render_loop_body w =
     (if redraw (state w) then
        (let w1 = canvas_clear w;
             w2 = fold (\<lambda>y. fold (draw_pixel y) [0..<128]) [0..<64] w1;
             w3 = canvas_commit w2
         in w3\<lparr>state := (state w3)\<lparr>redraw := False\<rparr>\<rparr>)
      else w)"

text \<open>
  The dots of one row and of a list of rows, in the order the two loops visit the pixels:
  used to say what the loops of \<open>render_loop_body\<close> draw.
\<close>

definition row_dots :: "UxnScreen \<Rightarrow> nat \<Rightarrow> nat list \<Rightarrow> call list" where
  "row_dots scr y xs =
     concat (map (\<lambda>x. if pixel_on (fg scr (y * 128 + x)) (bg scr (y * 128 + x))
                       then [CanvasDrawDot x y] else []) xs)"

definition frame_dots :: "UxnScreen \<Rightarrow> nat list \<Rightarrow> call list" where
  "frame_dots scr ys = concat (map (\<lambda>y. row_dots scr y [0..<128]) ys)"

text \<open>
  Modelled from the spec: \<open>storage_file_read(file, buf, n)\<close> belongs to the host. The
  program loader "supplies a raw byte stream loaded into VM memory starting at a fixed
  offset": the first \<open>n\<close> bytes of the stream (all of it when it is shorter) are
  copied to the buffer, which starts at offset \<open>off\<close> of the memory block; every other
  byte of the block is left as it was.
\<close>

definition storage_file_read :: "u8 list \<Rightarrow> (u16 \<Rightarrow> u8) \<Rightarrow> nat \<Rightarrow> nat \<Rightarrow> (u16 \<Rightarrow> u8)" where
  "storage_file_read bytes mem off n =
     (\<lambda>a. if off \<le> unat a \<and> unat a - off < min n (length bytes)
          then bytes ! (unat a - off) else mem a)"

text \<open>
  The start of \<open>uxn_app\<close> when a file was chosen, up to the file being closed:
  \<open>heap\<close> is the content of the block that \<open>malloc(0x10000)\<close> returns, \<open>rom\<close> the bytes
  of the file, \<open>resize\<close> the screen device's \<open>screen_resize\<close> and \<open>scr\<close> the screen before
  it. \<open>dev\<close> is the array initialised with \<open>{0}\<close>; no call has been made to the
  interpreter yet.
\<close>

definition uxn_app_load ::
  "(nat \<Rightarrow> nat \<Rightarrow> UxnScreen \<Rightarrow> UxnScreen) \<Rightarrow> (u16 \<Rightarrow> u8) \<Rightarrow> u8 list \<Rightarrow> UxnScreen \<Rightarrow> session" where
  "uxn_app_load resize heap rom scr =
     \<lparr>state = \<lparr>uxn = \<lparr>ram = storage_file_read rom heap 0x100 (0x10000 - 0x100),
                        dev = (\<lambda>_. 0)\<rparr>,
               running = False, redraw = False\<rparr>,
      uxn_screen = resize 128 64 scr,
      calls = []\<rparr>"

text \<open>\<open>uxn_eval(&state.uxn, 0x100)\<close>, the first resumption, then \<open>state.running = true\<close>.\<close>

definition uxn_app_start :: "eval_fn \<Rightarrow> session \<Rightarrow> session" where
  "uxn_app_start ev w =
     (let w1 = uxn_eval ev w 0x100 in w1\<lparr>state := (state w1)\<lparr>running := True\<rparr>\<rparr>)"

text \<open>The Button Mask register, \<open>dev[0x82]\<close>.\<close>

definition button_mask :: "session \<Rightarrow> u8" where
  "button_mask w = dev (uxn (state w)) 0x82"

section \<open>Concrete inputs\<close>

text \<open>
  An interpreter that returns at once, a screen device that does nothing, and the session
  right after a one-byte program was loaded into zero-filled memory.
\<close>

definition eval_nop :: eval_fn where
  "eval_nop m pc = m"

definition screen_dei_raw :: dei_fn where
  "screen_dei_raw m addr = (dev (fst m) addr, m)"

definition screen_deo_nop :: deo_fn where
  "screen_deo_nop r d port s = (r, fst d, s)"

definition screen_resize_nop :: "nat \<Rightarrow> nat \<Rightarrow> UxnScreen \<Rightarrow> UxnScreen" where
  "screen_resize_nop width height s = s"

definition blank_screen :: UxnScreen where
  "blank_screen = \<lparr>fg = (\<lambda>_. 0), bg = (\<lambda>_. 0)\<rparr>"

definition zero_heap :: "u16 \<Rightarrow> u8" where
  "zero_heap a = 0"

definition session0 :: session where
  "session0 = uxn_app_start eval_nop (uxn_app_load screen_resize_nop zero_heap [0x00] blank_screen)"

definition vm0 :: vm where
  "vm0 = (uxn (state session0), uxn_screen session0)"

text \<open>A screen device whose write handler copies the byte it finds at \<open>d[port]\<close> to \<open>dev[0x2f]\<close>.\<close>

definition screen_deo_probe :: deo_fn where
  "screen_deo_probe r d port s = (r, (fst d)(0x2f := fst d (snd d + port)), s)"

text \<open>
  An interpreter that sets the foreground byte of pixel (0, 0) to 1, the session after one
  tick with it, and the session in which the confirm key is held.
\<close>

definition eval_dot :: eval_fn where
  "eval_dot m pc = (fst m, (snd m)\<lparr>fg := (fg (snd m))(0 := 1)\<rparr>)"

definition lit_session :: session where
  "lit_session = timer_callback eval_dot session0"

definition ok_held :: session where
  "ok_held = input_callback eval_nop \<lparr>type = InputTypePress, key = InputKeyOk\<rparr> session0"

text \<open>
  A program whose reset routine at 0x100 writes 0x01 to port 0x82 through \<open>emu_deo\<close> and
  that has no other routine, and the session after loading and starting it.
\<close>

definition eval_hold :: eval_fn where
  "eval_hold m pc = (if pc = 0x100 then emu_deo screen_deo_nop m 0x82 0x01 else m)"

definition vm_held :: session where
  "vm_held = uxn_app_start eval_hold (uxn_app_load screen_resize_nop zero_heap [0x00] blank_screen)"

section \<open>Word arithmetic used below\<close>

lemma vector_value:
  "unat (push_bit 8 (ucast (h :: u8)) OR ucast (l :: u8) :: u16) = unat h * 256 + unat l"
proof -
  have disj: "push_bit 8 (ucast h :: u16) OR ucast l = push_bit 8 (ucast h) + ucast l"
    by (rule disjunctive_add_eq_or [symmetric])
      (simp add: bit_eq_iff bit_simps, auto dest: bit_imp_le_length)
  have small: "unat h < 256" "unat l < 256"
    using unsigned_less [of h] unsigned_less [of l] by simp_all
  have up: "unat (ucast h :: u16) = unat h" "unat (ucast l :: u16) = unat l"
    using small by (simp_all add: unsigned_ucast_eq take_bit_eq_mod)
  show ?thesis
    unfolding disj using small by (simp add: unat_word_ariths push_bit_eq_mult up)
qed

lemma display_port_address:
  assumes "drop_bit 4 (a :: u8) = 2"
  shows "0x20 + (a AND 0x0f) = a"
proof -
  have low: "a AND 0x0f = take_bit 4 a"
    using take_bit_eq_mask [of 4 a] by (simp add: mask_eq_exp_minus_1)
  have "a = push_bit 4 (drop_bit 4 a) + take_bit 4 a"
    by (simp add: bits_ident)
  then show ?thesis
    using assms low by simp
qed

lemma or_and_not: "((m :: u8) OR b) AND NOT b = m AND NOT b"
  by (simp add: bit_eq_iff bit_simps) blast

lemma and_not_clear: "(m :: u8) AND b = 0 \<Longrightarrow> m AND NOT b = m"
  by (auto simp add: bit_eq_iff bit_simps)

section \<open>Frame lemmas\<close>

lemma calls_uxn_eval: "calls (uxn_eval ev w pc) = calls w @ [UxnEval pc]"
  by (simp add: uxn_eval_def split: prod.split)

lemma uxn_eval_flags [simp]:
  "running (state (uxn_eval ev w pc)) = running (state w)"
  "redraw (state (uxn_eval ev w pc)) = redraw (state w)"
  by (simp_all add: uxn_eval_def split: prod.split)

lemma set_dev_fields [simp]:
  "calls (set_dev w a v) = calls w"
  "uxn_screen (set_dev w a v) = uxn_screen w"
  "running (state (set_dev w a v)) = running (state w)"
  "redraw (state (set_dev w a v)) = redraw (state w)"
  "ram (uxn (state (set_dev w a v))) = ram (uxn (state w))"
  "dev (uxn (state (set_dev w a v))) = (dev (uxn (state w)))(a := v)"
  by (simp_all add: set_dev_def)

lemma set_dev_same: "set_dev w a (dev (uxn (state w)) a) = w"
  by (simp add: set_dev_def)

lemma session0_fields:
  "dev (uxn (state session0)) a = 0"
  "calls session0 = [UxnEval 0x100]"
  by (simp_all add: session0_def uxn_app_start_def uxn_app_load_def uxn_eval_def eval_nop_def)

section \<open>The Button Mask under the input handler\<close>

lemma button_mask_uxn_eval:
  assumes "\<forall>m pc. dev (fst (ev m pc)) 0x82 = dev (fst m) 0x82"
  shows "button_mask (uxn_eval ev w pc) = button_mask w"
proof -
  obtain u' s' where r: "ev (uxn (state w), uxn_screen w) pc = (u', s')"
    by (cases "ev (uxn (state w), uxn_screen w) pc")
  from assms have "dev (fst (ev (uxn (state w), uxn_screen w) pc)) 0x82 = dev (uxn (state w)) 0x82"
    by simp
  with r show ?thesis by (simp add: button_mask_def uxn_eval_def)
qed

lemma button_mask_input_callback:
  assumes "\<forall>m pc. dev (fst (ev m pc)) 0x82 = dev (fst m) 0x82"
  shows "button_mask (input_callback ev e w) =
    (if type e = InputTypePress then button_mask w OR button_bit (key e)
     else if type e = InputTypeRelease then button_mask w AND NOT (button_bit (key e))
     else button_mask w)"
proof -
  have set: "button_mask (set_dev w 0x82 v) = v" for v
    by (simp add: button_mask_def)
  have run: "button_mask (w'\<lparr>state := (state w')\<lparr>running := False\<rparr>\<rparr>) = button_mask w'" for w'
    by (simp add: button_mask_def)
  show ?thesis
    by (simp add: input_callback_def Let_def run button_mask_uxn_eval [OF assms] set)
      (simp add: button_mask_def)
qed

lemma button_bit_disjoint: "k \<noteq> k' \<Longrightarrow> button_bit k AND button_bit k' = 0"
  by (cases k; cases k'; simp)

lemma button_bit_unused: "button_bit k AND 0x0c = 0"
  by (cases k; simp)

lemma button_bit_single:
  assumes "k \<noteq> InputKeyOther"
  shows "\<exists>n<8. button_bit k = 2 ^ n"
proof (cases k)
  case InputKeyOk then show ?thesis by (intro exI [of _ 0]) simp
next
  case InputKeyBack then show ?thesis by (intro exI [of _ 1]) simp
next
  case InputKeyUp then show ?thesis by (intro exI [of _ 4]) simp
next
  case InputKeyDown then show ?thesis by (intro exI [of _ 5]) simp
next
  case InputKeyLeft then show ?thesis by (intro exI [of _ 6]) simp
next
  case InputKeyRight then show ?thesis by (intro exI [of _ 7]) simp
next
  case InputKeyOther with assms show ?thesis by simp
qed

lemma mask_bit_stays_clear:
  assumes ev: "\<forall>m pc. dev (fst (ev m pc)) 0x82 = dev (fst m) 0x82"
    and c: "c AND button_bit (key e) = 0 \<or> type e \<noteq> InputTypePress"
    and m: "button_mask w AND c = 0"
  shows "button_mask (input_callback ev e w) AND c = 0"
proof -
  have a: "(button_mask w OR b) AND c = 0" if "c AND b = 0" for b
  proof -
    have "(button_mask w OR b) AND c = (button_mask w AND c) OR (b AND c)"
      by (simp add: bit.conj_disj_distrib2)
    with m that show ?thesis by (simp add: and.commute)
  qed
  have b: "(button_mask w AND NOT b) AND c = 0" for b
    using m by (metis and.assoc and.commute and_zero_eq)
  show ?thesis
    using c m by (auto simp: button_mask_input_callback [OF ev] a b)
qed

lemma mask_bit_clear_throughout:
  assumes ev: "\<forall>m pc. dev (fst (ev m pc)) 0x82 = dev (fst m) 0x82"
  shows "button_mask w AND c = 0 \<Longrightarrow>
     \<forall>e \<in> set es. c AND button_bit (key e) = 0 \<or> type e \<noteq> InputTypePress \<Longrightarrow>
     button_mask (fold (input_callback ev) es w) AND c = 0"
proof (induction es arbitrary: w)
  case Nil
  then show ?case by simp
next
  case (Cons e es)
  have "button_mask (input_callback ev e w) AND c = 0"
    using Cons.prems by (intro mask_bit_stays_clear [OF ev]) simp_all
  then show ?case
    using Cons.prems by (simp add: Cons.IH)
qed


lemma eval_nop_leaves_mask: "\<forall>m pc. dev (fst (eval_nop m pc)) 0x82 = dev (fst m) 0x82"
  by (simp add: eval_nop_def)

lemma vm_held_fields:
  "dev (uxn (state vm_held)) = (\<lambda>_. 0)(0x82 := 0x01)"
  by (simp add: vm_held_def uxn_app_start_def uxn_app_load_def uxn_eval_def eval_hold_def
      emu_deo_def drop_bit_eq_div Let_def)

lemma eval_hold_vector_zero: "uxn_eval eval_hold w 0 = w\<lparr>calls := calls w @ [UxnEval 0]\<rparr>"
  by (simp add: uxn_eval_def eval_hold_def)

section \<open>What the render loop draws\<close>

lemma pixel_on_iff: "pixel_on f b \<longleftrightarrow> bit f 0 \<or> (f = 0 \<and> bit b 0)"
  by (simp add: pixel_on_def and_one_eq bit_0 mod_2_eq_odd)

lemma draw_pixel_eq:
  "draw_pixel y x w = w\<lparr>calls := calls w @ row_dots (uxn_screen w) y [x]\<rparr>"
  by (simp add: draw_pixel_def canvas_draw_dot_def row_dots_def)

lemma fold_draw_row:
  "fold (draw_pixel y) xs w = w\<lparr>calls := calls w @ row_dots (uxn_screen w) y xs\<rparr>"
proof (induction xs arbitrary: w)
  case Nil
  show ?case by (simp add: row_dots_def)
next
  case (Cons x xs)
  have "fold (draw_pixel y) (x # xs) w = fold (draw_pixel y) xs (draw_pixel y x w)"
    by simp
  also have "\<dots> = (draw_pixel y x w)\<lparr>calls := calls (draw_pixel y x w)
      @ row_dots (uxn_screen (draw_pixel y x w)) y xs\<rparr>"
    by (rule Cons.IH)
  also have "\<dots> = w\<lparr>calls := calls w @ row_dots (uxn_screen w) y (x # xs)\<rparr>"
    by (simp add: draw_pixel_eq row_dots_def)
  finally show ?case .
qed

lemma fold_draw_frame:
  "fold (\<lambda>y. fold (draw_pixel y) [0..<128]) ys w
     = w\<lparr>calls := calls w @ frame_dots (uxn_screen w) ys\<rparr>"
proof (induction ys arbitrary: w)
  case Nil
  show ?case by (simp add: frame_dots_def)
next
  case (Cons y ys)
  let ?w1 = "fold (draw_pixel y) [0..<128] w"
  have "fold (\<lambda>y. fold (draw_pixel y) [0..<128]) (y # ys) w
      = fold (\<lambda>y. fold (draw_pixel y) [0..<128]) ys ?w1"
    by simp
  also have "\<dots> = ?w1\<lparr>calls := calls ?w1 @ frame_dots (uxn_screen ?w1) ys\<rparr>"
    by (rule Cons.IH)
  also have "\<dots> = w\<lparr>calls := calls w @ frame_dots (uxn_screen w) (y # ys)\<rparr>"
    by (simp add: fold_draw_row frame_dots_def)
  finally show ?case .
qed

lemma render_loop_body_redraw:
  assumes "redraw (state w)"
  shows "render_loop_body w
    = w\<lparr>calls := calls w @ [CanvasClear] @ frame_dots (uxn_screen w) [0..<64] @ [CanvasCommit],
         state := (state w)\<lparr>redraw := False\<rparr>\<rparr>"
  using assms
  by (simp add: render_loop_body_def canvas_clear_def canvas_commit_def fold_draw_frame)


lemma in_frame_dots:
  "c \<in> set (frame_dots scr ys) \<longleftrightarrow>
     (\<exists>x<128. \<exists>y \<in> set ys. c = CanvasDrawDot x y
        \<and> pixel_on (fg scr (y * 128 + x)) (bg scr (y * 128 + x)))"
  by (auto simp: frame_dots_def row_dots_def split: if_splits)


lemma lit_session_fields:
  "redraw (state lit_session)"
  "fg (uxn_screen lit_session) = (\<lambda>_. 0)(0 := 1)"
  "bg (uxn_screen lit_session) = (\<lambda>_. 0)"
  by (simp_all add: lit_session_def timer_callback_def uxn_eval_def eval_dot_def Let_def
      session0_def uxn_app_start_def uxn_app_load_def eval_nop_def screen_resize_nop_def
      blank_screen_def)





section \<open>Loading\<close>

lemma storage_file_read_below:
  "unat a < off \<Longrightarrow> storage_file_read bytes mem off n a = mem a"
  by (simp add: storage_file_read_def)

lemma storage_file_read_from:
  assumes "off \<le> unat a" "unat a - off < length bytes" "unat a - off < n"
  shows "storage_file_read bytes mem off n a = bytes ! (unat a - off)"
  using assms by (simp add: storage_file_read_def)

lemma load_address_in_buffer: "unat (a :: u16) - 0x100 < 0xff00"
proof -
  have "unat a < 0x10000"
    using unsigned_less [of a] by simp
  then show ?thesis
    by simp
qed

section \<open>Vector resolution\<close>

text \<open>
  C8. The resume address is a function of two register bytes only: for the controller
  class the bytes at 0x80 (high) and 0x81 (low), for the screen class the bytes at 0x20
  and 0x21, and its value is \<open>hi * 256 + lo\<close>.
\<close>

theorem vector_resolution:
  "unat (controller_vector u) = unat (dev u 0x80) * 256 + unat (dev u 0x81)
   \<and> unat (screen_vector u) = unat (dev u 0x20) * 256 + unat (dev u 0x21)"
  by (simp add: controller_vector_def screen_vector_def vector_value)

section \<open>Long press of the back key\<close>

text \<open>
  C7. A long-press event of the back key sets \<open>running\<close> to false and changes nothing
  else: the Button Mask keeps its value and no call is made to the interpreter.
\<close>

theorem long_press_back:
  "input_callback ev \<lparr>type = InputTypeLong, key = InputKeyBack\<rparr> w
     = w\<lparr>state := (state w)\<lparr>running := False\<rparr>\<rparr>
   \<and> \<not> running (state (input_callback ev \<lparr>type = InputTypeLong, key = InputKeyBack\<rparr> w))
   \<and> button_mask (input_callback ev \<lparr>type = InputTypeLong, key = InputKeyBack\<rparr> w)
       = button_mask w
   \<and> calls (input_callback ev \<lparr>type = InputTypeLong, key = InputKeyBack\<rparr> w) = calls w"
  by (simp add: input_callback_def button_mask_def)

section \<open>Device dispatch\<close>

text \<open>
  C5. For every address whose high nibble is not 2 (no device with a read handler), a
  write of \<open>v\<close> followed by a read of the same address returns \<open>v\<close>; the read leaves the
  machine as the write left it.
\<close>

theorem write_then_read:
  "drop_bit 4 a \<noteq> 2 \<Longrightarrow>
     fst (emu_dei sdei (emu_deo sdeo m a v) a) = v
     \<and> snd (emu_dei sdei (emu_deo sdeo m a v) a) = emu_deo sdeo m a v"
  by (simp add: emu_dei_def emu_deo_def)

theorem write_then_read_witness:
  "drop_bit 4 (0x82 :: u8) \<noteq> 2
   \<and> fst (emu_dei screen_dei_raw
        (emu_deo screen_deo_nop (uxn (state session0), uxn_screen session0) 0x82 0x41) 0x82)
      = 0x41"
  using write_then_read [of "0x82" screen_dei_raw screen_deo_nop
      "(uxn (state session0), uxn_screen session0)" "0x41"]
  by (simp add: drop_bit_eq_div)

text \<open>
  C4. \<open>emu_deo\<close> stores the value at the address whatever the address is, and before it
  delegates: for a selector other than 2 the result is the machine with that one register
  changed; for the display device (selector 2) the screen handler is run on the register
  table that already holds the value, where its own view \<open>d[port]\<close> (the pointer
  \<open>&dev[0x20]\<close> and the port) reads the value just written.
\<close>

theorem emu_deo_stores_first:
  "(drop_bit 4 addr \<noteq> 2 \<longrightarrow>
      emu_deo sdeo m addr val = ((fst m)\<lparr>dev := (dev (fst m))(addr := val)\<rparr>, snd m))
   \<and> (drop_bit 4 addr = 2 \<longrightarrow>
      ((dev (fst m))(addr := val)) (0x20 + (addr AND 0x0f)) = val
      \<and> emu_deo sdeo m addr val =
          (case sdeo (ram (fst m)) ((dev (fst m))(addr := val), 0x20) (addr AND 0x0f) (snd m) of
             (r', d', s') \<Rightarrow> ((fst m)\<lparr>ram := r', dev := d'\<rparr>, s')))"
  by (auto simp: emu_deo_def display_port_address split: prod.split)

theorem emu_deo_stores_first_witness:
  "drop_bit 4 (0x28 :: u8) = 2
   \<and> dev (fst (emu_deo screen_deo_probe vm0 0x28 0x55)) 0x28 = 0x55
   \<and> dev (fst (emu_deo screen_deo_probe vm0 0x28 0x55)) 0x2f = 0x55
   \<and> drop_bit 4 (0x82 :: u8) \<noteq> 2
   \<and> dev (fst (emu_deo screen_deo_probe vm0 0x82 0x55)) 0x82 = 0x55
   \<and> dev (fst (emu_deo screen_deo_probe vm0 0x82 0x55)) 0x2f = 0"
  using emu_deo_stores_first [of "0x28" screen_deo_probe vm0 "0x55"]
    emu_deo_stores_first [of "0x82" screen_deo_probe vm0 "0x55"]
  by (simp add: drop_bit_eq_div screen_deo_probe_def vm0_def session0_fields)

section \<open>Event handlers and the interpreter\<close>

text \<open>
  C10. For a press or release event whose key is none of the six recognised keys,
  \<open>button_bit\<close> returns 0, the write to the Button Mask register stores the value it
  already holds, and the interpreter is still invoked at the controller vector.
\<close>

theorem unrecognised_key:
  assumes "key e \<notin> {InputKeyOk, InputKeyBack, InputKeyUp, InputKeyDown, InputKeyLeft, InputKeyRight}"
    and "type e = InputTypePress \<or> type e = InputTypeRelease"
  shows "button_bit (key e) = 0
    \<and> set_dev w 0x82 (button_mask w OR button_bit (key e)) = w
    \<and> set_dev w 0x82 (button_mask w AND NOT (button_bit (key e))) = w
    \<and> input_callback ev e w = uxn_eval ev w (controller_vector (uxn (state w)))
    \<and> calls (input_callback ev e w) = calls w @ [UxnEval (controller_vector (uxn (state w)))]"
proof -
  from assms(1) have other: "key e = InputKeyOther"
    by (cases "key e") simp_all
  show ?thesis
    using assms(2)
    by (auto simp: other input_callback_def button_mask_def set_dev_same calls_uxn_eval)
qed

theorem unrecognised_key_witness:
  "key \<lparr>type = InputTypePress, key = InputKeyOther\<rparr>
      \<notin> {InputKeyOk, InputKeyBack, InputKeyUp, InputKeyDown, InputKeyLeft, InputKeyRight}
   \<and> type \<lparr>type = InputTypePress, key = InputKeyOther\<rparr> = InputTypePress
   \<and> button_bit InputKeyOther = 0
   \<and> calls (input_callback eval_nop \<lparr>type = InputTypePress, key = InputKeyOther\<rparr> session0)
       = calls session0 @ [UxnEval (controller_vector (uxn (state session0)))]"
  using unrecognised_key [of "\<lparr>type = InputTypePress, key = InputKeyOther\<rparr>" session0 eval_nop]
  by (simp add: calls_uxn_eval)

text \<open>
  C1, as the code has it. Neither handler compares the vector with zero. The timer handler
  invokes the interpreter at the screen vector on every tick, and the input handler invokes
  it at the controller vector on every press and every release event (and on no other
  event); when the two vector bytes are zero the interpreter is invoked with address 0.
\<close>

theorem handlers_always_resume:
  "calls (timer_callback ev w) = calls w @ [UxnEval (screen_vector (uxn (state w)))]
   \<and> (type e = InputTypePress \<or> type e = InputTypeRelease \<longrightarrow>
        calls (input_callback ev e w) = calls w @ [UxnEval (controller_vector (uxn (state w)))])
   \<and> (type e \<noteq> InputTypePress \<and> type e \<noteq> InputTypeRelease \<longrightarrow>
        calls (input_callback ev e w) = calls w)
   \<and> (dev (uxn (state w)) 0x20 = 0 \<and> dev (uxn (state w)) 0x21 = 0 \<longrightarrow>
        calls (timer_callback ev w) = calls w @ [UxnEval 0])
   \<and> (dev (uxn (state w)) 0x80 = 0 \<and> dev (uxn (state w)) 0x81 = 0
        \<and> (type e = InputTypePress \<or> type e = InputTypeRelease) \<longrightarrow>
        calls (input_callback ev e w) = calls w @ [UxnEval 0])"
  by (auto simp: timer_callback_def input_callback_def calls_uxn_eval Let_def
      screen_vector_def controller_vector_def)

theorem handlers_always_resume_witness:
  "(type \<lparr>type = InputTypePress, key = InputKeyOk\<rparr> = InputTypePress
      \<or> type \<lparr>type = InputTypePress, key = InputKeyOk\<rparr> = InputTypeRelease)
   \<and> dev (uxn (state session0)) 0x20 = 0 \<and> dev (uxn (state session0)) 0x21 = 0
   \<and> dev (uxn (state session0)) 0x80 = 0 \<and> dev (uxn (state session0)) 0x81 = 0
   \<and> calls (timer_callback eval_nop session0) = calls session0 @ [UxnEval 0]
   \<and> calls (input_callback eval_nop \<lparr>type = InputTypePress, key = InputKeyOk\<rparr> session0)
       = calls session0 @ [UxnEval 0]
   \<and> type \<lparr>type = InputTypeLong, key = InputKeyOk\<rparr> \<noteq> InputTypePress
   \<and> type \<lparr>type = InputTypeLong, key = InputKeyOk\<rparr> \<noteq> InputTypeRelease
   \<and> calls (input_callback eval_nop \<lparr>type = InputTypeLong, key = InputKeyOk\<rparr> session0)
       = calls session0"
  using handlers_always_resume [of eval_nop session0 "\<lparr>type = InputTypePress, key = InputKeyOk\<rparr>"]
    handlers_always_resume [of eval_nop session0 "\<lparr>type = InputTypeLong, key = InputKeyOk\<rparr>"]
  by (auto simp: session0_fields)

text \<open>
  C1 as stated fails: in the session right after loading, all four vector bytes are zero,
  and a tick, a press and a release each invoke the interpreter, with address 0.
\<close>

theorem zero_vector_counterexample:
  "dev (uxn (state session0)) 0x20 = 0 \<and> dev (uxn (state session0)) 0x21 = 0
   \<and> dev (uxn (state session0)) 0x80 = 0 \<and> dev (uxn (state session0)) 0x81 = 0
   \<and> calls session0 = [UxnEval 0x100]
   \<and> calls (timer_callback eval_nop session0) = [UxnEval 0x100, UxnEval 0]
   \<and> calls (input_callback eval_nop \<lparr>type = InputTypePress, key = InputKeyOk\<rparr> session0)
       = [UxnEval 0x100, UxnEval 0]
   \<and> calls (input_callback eval_nop \<lparr>type = InputTypeRelease, key = InputKeyOk\<rparr> session0)
       = [UxnEval 0x100, UxnEval 0]"
  by (simp add: session0_fields timer_callback_def input_callback_def calls_uxn_eval
      screen_vector_def controller_vector_def Let_def)

text \<open>
  C6, as the code has it. With an interpreter that leaves \<open>dev[0x82]\<close> alone: a press event
  ORs the key's bit into the Button Mask and a release event ANDs its complement out, so a
  press followed by a release of the same key leaves the mask with that bit cleared, which
  is the mask before the press whenever the bit was clear before the press. Each of the
  six keys has one bit, the bits of two different keys are disjoint, bits 2 and 3 belong to
  no key, and over any sequence of events a bit that was clear stays clear unless its key
  is pressed; the two unused bits stay clear if they were.
\<close>

theorem button_mask_press_release:
  assumes ev: "\<forall>m pc. dev (fst (ev m pc)) 0x82 = dev (fst m) 0x82"
  shows "button_mask (input_callback ev \<lparr>type = InputTypePress, key = k\<rparr> w)
        = button_mask w OR button_bit k
    \<and> button_mask (input_callback ev \<lparr>type = InputTypeRelease, key = k\<rparr> w)
        = button_mask w AND NOT (button_bit k)
    \<and> button_mask (input_callback ev \<lparr>type = InputTypeRelease, key = k\<rparr>
          (input_callback ev \<lparr>type = InputTypePress, key = k\<rparr> w))
        = button_mask w AND NOT (button_bit k)
    \<and> (button_mask w AND button_bit k = 0 \<longrightarrow>
          button_mask (input_callback ev \<lparr>type = InputTypeRelease, key = k\<rparr>
            (input_callback ev \<lparr>type = InputTypePress, key = k\<rparr> w)) = button_mask w)
    \<and> (k \<noteq> InputKeyOther \<longrightarrow> (\<exists>n<8. button_bit k = 2 ^ n))
    \<and> (k \<noteq> k' \<longrightarrow> button_bit k AND button_bit k' = 0)
    \<and> button_bit k AND 0x0c = 0
    \<and> (button_mask w AND button_bit k = 0
          \<and> (\<forall>e \<in> set es. type e = InputTypePress \<longrightarrow> key e \<noteq> k) \<longrightarrow>
          button_mask (fold (input_callback ev) es w) AND button_bit k = 0)
    \<and> (button_mask w AND 0x0c = 0 \<longrightarrow>
          button_mask (fold (input_callback ev) es w) AND 0x0c = 0)"
proof -
  note cb = button_mask_input_callback [OF ev]
  have both: "button_mask (input_callback ev \<lparr>type = InputTypeRelease, key = k\<rparr>
          (input_callback ev \<lparr>type = InputTypePress, key = k\<rparr> w))
        = button_mask w AND NOT (button_bit k)"
    by (simp add: cb or_and_not)
  have key: "button_mask (fold (input_callback ev) es w) AND button_bit k = 0"
    if "button_mask w AND button_bit k = 0"
      and "\<forall>e \<in> set es. type e = InputTypePress \<longrightarrow> key e \<noteq> k"
    using that by (intro mask_bit_clear_throughout [OF ev]) (auto simp: button_bit_disjoint)
  have unused: "button_mask (fold (input_callback ev) es w) AND 0x0c = 0"
    if "button_mask w AND 0x0c = 0"
    using that
    by (intro mask_bit_clear_throughout [OF ev]) (auto simp: button_bit_unused and.commute)
  show ?thesis
    using both key unused
    by (simp add: cb and_not_clear button_bit_single button_bit_disjoint button_bit_unused)
qed

theorem button_mask_press_release_witness:
  "(\<forall>m pc. dev (fst (eval_nop m pc)) 0x82 = dev (fst m) 0x82)
   \<and> button_mask session0 AND button_bit InputKeyOk = 0
   \<and> button_mask (input_callback eval_nop \<lparr>type = InputTypePress, key = InputKeyOk\<rparr> session0) = 0x01
   \<and> button_mask (input_callback eval_nop \<lparr>type = InputTypeRelease, key = InputKeyOk\<rparr>
          (input_callback eval_nop \<lparr>type = InputTypePress, key = InputKeyOk\<rparr> session0))
        = button_mask session0
   \<and> InputKeyOk \<noteq> InputKeyOther \<and> InputKeyOk \<noteq> InputKeyUp
   \<and> button_bit InputKeyOk AND button_bit InputKeyUp = 0
   \<and> button_mask (fold (input_callback eval_nop)
          [\<lparr>type = InputTypePress, key = InputKeyUp\<rparr>,
           \<lparr>type = InputTypeRelease, key = InputKeyUp\<rparr>] session0) AND button_bit InputKeyOk = 0"
proof -
  have nop: "\<forall>m pc. dev (fst (eval_nop m pc)) 0x82 = dev (fst m) 0x82"
    by (simp add: eval_nop_def)
  have zero: "button_mask session0 = 0"
    by (simp add: button_mask_def session0_fields)
  show ?thesis
    using nop button_mask_press_release [OF nop, of InputKeyOk session0 InputKeyUp
      "[\<lparr>type = InputTypePress, key = InputKeyUp\<rparr>, \<lparr>type = InputTypeRelease, key = InputKeyUp\<rparr>]"]
    by (simp add: zero)
qed

text \<open>
  C6 as stated fails when the key's bit is already set before the press: a press and a
  release of the confirm key leave the mask 0x00, not the value 0x01 it had before the
  press, both when the bit was set by an earlier press of the key and when the program
  wrote it to port 0x82.
\<close>

theorem press_release_counterexample:
  "button_mask ok_held = 0x01
   \<and> button_mask (input_callback eval_nop \<lparr>type = InputTypeRelease, key = InputKeyOk\<rparr>
        (input_callback eval_nop \<lparr>type = InputTypePress, key = InputKeyOk\<rparr> ok_held)) = 0x00
   \<and> button_mask vm_held = 0x01
   \<and> button_mask (input_callback eval_hold \<lparr>type = InputTypeRelease, key = InputKeyOk\<rparr>
        (input_callback eval_hold \<lparr>type = InputTypePress, key = InputKeyOk\<rparr> vm_held)) = 0x00"
proof -
  have held: "button_mask ok_held = 0x01
   \<and> button_mask (input_callback eval_nop \<lparr>type = InputTypeRelease, key = InputKeyOk\<rparr>
        (input_callback eval_nop \<lparr>type = InputTypePress, key = InputKeyOk\<rparr> ok_held)) = 0x00"
    by (simp add: ok_held_def button_mask_input_callback [OF eval_nop_leaves_mask])
      (simp add: button_mask_def session0_fields)
  have press: "input_callback eval_hold \<lparr>type = InputTypePress, key = InputKeyOk\<rparr> vm_held
      = vm_held\<lparr>calls := calls vm_held @ [UxnEval 0]\<rparr>"
    by (simp add: input_callback_def controller_vector_def vm_held_fields
        eval_hold_vector_zero set_dev_def)
  have "button_mask vm_held = 0x01"
    by (simp add: button_mask_def vm_held_fields)
  moreover have "button_mask (input_callback eval_hold \<lparr>type = InputTypeRelease, key = InputKeyOk\<rparr>
        (input_callback eval_hold \<lparr>type = InputTypePress, key = InputKeyOk\<rparr> vm_held)) = 0x00"
    by (simp add: press)
      (simp add: input_callback_def controller_vector_def vm_held_fields
        eval_hold_vector_zero set_dev_def button_mask_def)
  ultimately show ?thesis
    using held by simp
qed

section \<open>Compositor and render loop\<close>

text \<open>
  C2. A pixel is on iff the least-significant bit of \<open>fg\<close> is set, or \<open>fg\<close> is zero and
  the least-significant bit of \<open>bg\<close> is set; the five listed cases; and one iteration of
  the render loop with the dirty flag set clears the canvas, draws a dot at exactly the
  positions \<open>x < 128\<close>, \<open>y < 64\<close> whose pixel is on, and commits.
\<close>

theorem compositor_pixel:
  "(pixel_on f b \<longleftrightarrow> bit f 0 \<or> (f = 0 \<and> bit b 0))
   \<and> \<not> pixel_on 0 0 \<and> pixel_on 0 1 \<and> pixel_on 1 0 \<and> \<not> pixel_on 2 1 \<and> pixel_on 3 0
   \<and> (redraw (state w) \<longrightarrow>
        (\<exists>dots. calls (render_loop_body w) = calls w @ [CanvasClear] @ dots @ [CanvasCommit]
           \<and> (\<forall>c. c \<in> set dots \<longleftrightarrow>
                (\<exists>x<128. \<exists>y<64. c = CanvasDrawDot x y
                   \<and> (bit (fg (uxn_screen w) (y * 128 + x)) 0
                       \<or> (fg (uxn_screen w) (y * 128 + x) = 0
                           \<and> bit (bg (uxn_screen w) (y * 128 + x)) 0))))))"
proof -
  have examples: "\<not> pixel_on 0 0" "pixel_on 0 1" "pixel_on 1 0" "\<not> pixel_on 2 1" "pixel_on 3 0"
    by (simp_all add: pixel_on_def)
  have frame: "\<exists>dots. calls (render_loop_body w) = calls w @ [CanvasClear] @ dots @ [CanvasCommit]
           \<and> (\<forall>c. c \<in> set dots \<longleftrightarrow>
                (\<exists>x<128. \<exists>y<64. c = CanvasDrawDot x y
                   \<and> (bit (fg (uxn_screen w) (y * 128 + x)) 0
                       \<or> (fg (uxn_screen w) (y * 128 + x) = 0
                           \<and> bit (bg (uxn_screen w) (y * 128 + x)) 0))))"
    if "redraw (state w)"
  proof (intro exI conjI)
    show "calls (render_loop_body w)
        = calls w @ [CanvasClear] @ frame_dots (uxn_screen w) [0..<64] @ [CanvasCommit]"
      by (simp add: render_loop_body_redraw [OF that])
    show "\<forall>c. c \<in> set (frame_dots (uxn_screen w) [0..<64]) \<longleftrightarrow>
                (\<exists>x<128. \<exists>y<64. c = CanvasDrawDot x y
                   \<and> (bit (fg (uxn_screen w) (y * 128 + x)) 0
                       \<or> (fg (uxn_screen w) (y * 128 + x) = 0
                           \<and> bit (bg (uxn_screen w) (y * 128 + x)) 0)))"
      by (auto simp: in_frame_dots pixel_on_iff)
  qed
  show ?thesis
    using examples frame by (simp add: pixel_on_iff)
qed

theorem compositor_pixel_witness:
  "redraw (state lit_session)
   \<and> (\<exists>dots. calls (render_loop_body lit_session)
         = calls lit_session @ [CanvasClear] @ dots @ [CanvasCommit]
        \<and> CanvasDrawDot 0 0 \<in> set dots \<and> CanvasDrawDot 1 0 \<notin> set dots)"
proof -
  have r: "redraw (state lit_session)"
    by (rule lit_session_fields)
  from compositor_pixel [of 0 0 lit_session] r
  obtain dots where d: "calls (render_loop_body lit_session)
         = calls lit_session @ [CanvasClear] @ dots @ [CanvasCommit]"
    and m: "\<forall>c. c \<in> set dots \<longleftrightarrow>
                (\<exists>x<128. \<exists>y<64. c = CanvasDrawDot x y
                   \<and> (bit (fg (uxn_screen lit_session) (y * 128 + x)) 0
                       \<or> (fg (uxn_screen lit_session) (y * 128 + x) = 0
                           \<and> bit (bg (uxn_screen lit_session) (y * 128 + x)) 0)))"
    by blast
  have "CanvasDrawDot 0 0 \<in> set dots"
    by (simp add: m lit_session_fields)
  moreover have "CanvasDrawDot 1 0 \<notin> set dots"
    by (simp add: m lit_session_fields)
  ultimately show ?thesis
    using r d by blast
qed



section \<open>Program load\<close>

text \<open>
  C3. The memory block comes from the allocator of the host, which hands out zero-filled
  memory: \<open>heap\<close> is that block. After the load and before the first resumption, offsets 0
  to 255 of the memory are zero, since \<open>uxn_app\<close> writes none of them, and the byte stream
  of the file lies from offset 256 on: the cell at offset \<open>a\<close> holds byte \<open>a - 256\<close> of
  the stream. No call to the interpreter has been made; the first one is at 0x100.
\<close>

theorem program_load:
  assumes "\<forall>a. heap a = 0"
  shows "(\<forall>a. unat a < 0x100 \<longrightarrow> ram (uxn (state (uxn_app_load rs heap rom scr))) a = 0)
   \<and> (\<forall>a. 0x100 \<le> unat a \<and> unat a - 0x100 < length rom \<longrightarrow>
          ram (uxn (state (uxn_app_load rs heap rom scr))) a = rom ! (unat a - 0x100))
   \<and> calls (uxn_app_load rs heap rom scr) = []
   \<and> calls (uxn_app_start ev (uxn_app_load rs heap rom scr)) = [UxnEval 0x100]"
proof -
  have page: "ram (uxn (state (uxn_app_load rs heap rom scr))) a = 0" if "unat a < 0x100" for a
    using that assms by (simp add: uxn_app_load_def storage_file_read_below)
  have prog: "ram (uxn (state (uxn_app_load rs heap rom scr))) a = rom ! (unat a - 0x100)"
    if "0x100 \<le> unat a" "unat a - 0x100 < length rom" for a
    using that load_address_in_buffer [of a]
    by (simp add: uxn_app_load_def storage_file_read_from)
  have log: "calls (uxn_app_load rs heap rom scr) = []"
    by (simp add: uxn_app_load_def)
  have first: "calls (uxn_app_start ev (uxn_app_load rs heap rom scr)) = [UxnEval 0x100]"
    by (simp add: uxn_app_start_def calls_uxn_eval Let_def log)
  show ?thesis
    using page prog log first by blast
qed

theorem program_load_witness:
  "(\<forall>a. zero_heap a = 0)
   \<and> unat (0x00 :: u16) < 0x100 \<and> unat (0xff :: u16) < 0x100
   \<and> ram (uxn (state (uxn_app_load screen_resize_nop zero_heap [0x01, 0x02] blank_screen))) 0x00 = 0
   \<and> ram (uxn (state (uxn_app_load screen_resize_nop zero_heap [0x01, 0x02] blank_screen))) 0xff = 0
   \<and> ram (uxn (state (uxn_app_load screen_resize_nop zero_heap [0x01, 0x02] blank_screen))) 0x100 = 0x01
   \<and> ram (uxn (state (uxn_app_load screen_resize_nop zero_heap [0x01, 0x02] blank_screen))) 0x101 = 0x02
   \<and> calls (uxn_app_load screen_resize_nop zero_heap [0x01, 0x02] blank_screen) = []
   \<and> calls (uxn_app_start eval_nop
        (uxn_app_load screen_resize_nop zero_heap [0x01, 0x02] blank_screen)) = [UxnEval 0x100]"
proof -
  have zero: "\<forall>a. zero_heap a = 0"
    by (simp add: zero_heap_def)
  note load = program_load [OF zero, of screen_resize_nop "[0x01, 0x02]" blank_screen eval_nop]
  have small: "unat (0x00 :: u16) < 0x100" "unat (0xff :: u16) < 0x100"
    by simp_all
  have page: "ram (uxn (state (uxn_app_load screen_resize_nop zero_heap [0x01, 0x02] blank_screen))) a = 0"
    if "unat a < 0x100" for a
    using load that by blast
  have prog: "ram (uxn (state (uxn_app_load screen_resize_nop zero_heap [0x01, 0x02] blank_screen))) a
      = [0x01, 0x02] ! (unat a - 0x100)"
    if "0x100 \<le> unat a" "unat a - 0x100 < length [0x01, 0x02 :: u8]" for a
    using load that by blast
  have b0: "ram (uxn (state (uxn_app_load screen_resize_nop zero_heap [0x01, 0x02] blank_screen))) 0x100 = 0x01"
    using prog [of "0x100"] by simp
  have b1: "ram (uxn (state (uxn_app_load screen_resize_nop zero_heap [0x01, 0x02] blank_screen))) 0x101 = 0x02"
    using prog [of "0x101"] by simp
  have log: "calls (uxn_app_load screen_resize_nop zero_heap [0x01, 0x02] blank_screen) = []"
    "calls (uxn_app_start eval_nop
        (uxn_app_load screen_resize_nop zero_heap [0x01, 0x02] blank_screen)) = [UxnEval 0x100]"
    using load by blast+
  show ?thesis
    using zero small page [OF small(1)] page [OF small(2)] b0 b1 log by blast
qed

end
